theory Spec2Isabelle
  imports Complex_Main "HOL-Library.Multiset"
begin

section \<open>Event records\<close>

text \<open>
  The rows the report hook reads. A timestamp column is kept as the instant, in
  milliseconds since the epoch, that \<^verbatim>\<open>new Date(column).getTime()\<close> yields; JavaScript
  numbers are taken as exact reals (counts as naturals), so NaN, the infinities and
  binary rounding are outside this model. Only the columns the hook reads are kept.
\<close>

type_synonym instant = int

record patient =
  id_col :: string
  mrn :: string
  status :: string
  diagnosis :: string
  admission_date :: instant

record discharge =
  patient_id :: string
  discharge_date :: instant
  discharge_condition :: string

text \<open>Rows of \<^verbatim>\<open>medications\<close>, \<^verbatim>\<open>lab_results\<close> and \<^verbatim>\<open>vitals\<close>: the hook reads only \<^verbatim>\<open>created_at\<close>.\<close>

record timed_row =
  created_at :: instant

section \<open>JavaScript helpers\<close>

text \<open>\<^verbatim>\<open>n || d\<close> on a number: zero is falsy.\<close>

definition or_default :: "nat \<Rightarrow> nat \<Rightarrow> nat" where
  "or_default n d = (if n = 0 then d else n)"

text \<open>
  A \<^verbatim>\<open>Record<string, number>\<close> built from \<^verbatim>\<open>{}\<close>: the own properties in creation order.
  Keys are taken to be fresh names, not members inherited from \<^verbatim>\<open>Object.prototype\<close>.
\<close>

type_synonym js_object = "(string \<times> nat) list"

fun set_prop :: "string \<Rightarrow> nat \<Rightarrow> js_object \<Rightarrow> js_object" where
  "set_prop k v [] = [(k, v)]"
| "set_prop k v ((k', v') # rest) =
     (if k' = k then (k', v) # rest else (k', v') # set_prop k v rest)"

definition get_or_zero :: "js_object \<Rightarrow> string \<Rightarrow> nat" where
  \<comment> \<open>\<^verbatim>\<open>obj[k] || 0\<close>\<close>
  "get_or_zero obj k = (case map_of obj k of None \<Rightarrow> 0 | Some n \<Rightarrow> or_default n 0)"

definition count_by :: "('a \<Rightarrow> string) \<Rightarrow> 'a list \<Rightarrow> js_object" where
  \<comment> \<open>\<^verbatim>\<open>rows.reduce((acc, curr) => { acc[key] = (acc[key] || 0) + 1; return acc }, {})\<close>\<close>
  "count_by key rows = foldl (\<lambda>acc curr. set_prop (key curr) (get_or_zero acc (key curr) + 1) acc) [] rows"

text \<open>Decimal digits, as \<^verbatim>\<open>Number.prototype.toString\<close> writes a non-negative integer.\<close>

definition digit_char :: "nat \<Rightarrow> char" where
  "digit_char d = char_of (48 + d)"

definition digit_val :: "char \<Rightarrow> nat" where
  "digit_val c = of_char c - 48"

definition is_digit :: "char \<Rightarrow> bool" where
  "is_digit c = (48 \<le> (of_char c :: nat) \<and> (of_char c :: nat) \<le> 57)"

fun nat_to_string :: "nat \<Rightarrow> string" where
  "nat_to_string n =
     (if n < 10 then [digit_char n] else nat_to_string (n div 10) @ [digit_char (n mod 10)])"

declare nat_to_string.simps [simp del]

definition dec_val :: "string \<Rightarrow> nat" where
  "dec_val s = foldl (\<lambda>n c. 10 * n + digit_val c) 0 s"

text \<open>
  \<^verbatim>\<open>Object.entries\<close> lists the keys that are array indices (canonical decimal strings
  below \<open>2^32 - 1\<close>) first, in ascending numeric order, then the other string keys
  in creation order.
\<close>

definition is_array_index :: "string \<Rightarrow> bool" where
  "is_array_index k =
     (k \<noteq> [] \<and> list_all is_digit k \<and> (k = ''0'' \<or> hd k \<noteq> CHR ''0'') \<and> dec_val k < 2 ^ 32 - 1)"

definition own_entries :: "js_object \<Rightarrow> (string \<times> nat) list" where
  "own_entries obj =
     sort_key (\<lambda>(k, v). dec_val k) (filter (\<lambda>(k, v). is_array_index k) obj)
       @ filter (\<lambda>(k, v). \<not> is_array_index k) obj"

definition own_values :: "js_object \<Rightarrow> nat list" where
  "own_values obj = map snd (own_entries obj)"

text \<open>
  \<^verbatim>\<open>Array.prototype.sort\<close> with a comparator is stable: an element is placed before the
  first element of the sorted rest that it does not compare greater than.
\<close>

fun insert_by :: "('a \<Rightarrow> 'a \<Rightarrow> int) \<Rightarrow> 'a \<Rightarrow> 'a list \<Rightarrow> 'a list" where
  "insert_by cmp x [] = [x]"
| "insert_by cmp x (y # ys) = (if cmp x y \<le> 0 then x # y # ys else y # insert_by cmp x ys)"

definition array_sort :: "('a \<Rightarrow> 'a \<Rightarrow> int) \<Rightarrow> 'a list \<Rightarrow> 'a list" where
  "array_sort cmp xs = foldr (insert_by cmp) xs []"


section \<open>The report hook\<close>

record report_metrics =
  totalPatients :: nat
  criticalCases :: nat
  medicationsGiven :: nat
  labTests :: nat
  averageStayDuration :: real
  bedOccupancyRate :: real
  readmissionRate :: real
  mortalityRate :: real

text \<open>An entry \<^verbatim>\<open>{ name, value }\<close> or \<^verbatim>\<open>{ name, count }\<close> is a pair.\<close>

record report_activities =
  patientStatusDistribution :: "(string \<times> nat) list"
  dailyActivities :: "(string \<times> nat) list"
  topProcedures :: "(string \<times> nat) list"
  commonDiagnoses :: "(string \<times> nat) list"

definition statusDistribution :: "patient list \<Rightarrow> js_object" where
  "statusDistribution patients = count_by status patients"

text \<open>
  \<open>fmt\<close> is \<^verbatim>\<open>format(new Date(t), 'yyyy-MM-dd')\<close> of date-fns: the calendar date of an
  instant in the caller's time zone. \<open>today\<close> is \<^verbatim>\<open>new Date()\<close> at computation time.
\<close>

definition admissionsToday :: "(instant \<Rightarrow> string) \<Rightarrow> instant \<Rightarrow> patient list \<Rightarrow> nat" where
  "admissionsToday fmt today patients =
     length (filter (\<lambda>p. fmt (admission_date p) = fmt today) patients)"

definition dischargesToday :: "(instant \<Rightarrow> string) \<Rightarrow> instant \<Rightarrow> discharge list \<Rightarrow> nat" where
  "dischargesToday fmt today discharges =
     length (filter (\<lambda>d. fmt (discharge_date d) = fmt today) discharges)"

definition labTestsToday :: "(instant \<Rightarrow> string) \<Rightarrow> instant \<Rightarrow> timed_row list \<Rightarrow> nat" where
  "labTestsToday fmt today labResults =
     length (filter (\<lambda>l. fmt (created_at l) = fmt today) labResults)"

definition medicationsToday :: "(instant \<Rightarrow> string) \<Rightarrow> instant \<Rightarrow> timed_row list \<Rightarrow> nat" where
  "medicationsToday fmt today medications =
     length (filter (\<lambda>m. fmt (created_at m) = fmt today) medications)"

definition diagnosesCount :: "patient list \<Rightarrow> js_object" where
  "diagnosesCount patients = count_by diagnosis patients"

definition sortedDiagnoses :: "patient list \<Rightarrow> (string \<times> nat) list" where
  "sortedDiagnoses patients =
     map (\<lambda>(name, count). (name, count))
       (take 5 (array_sort (\<lambda>(_, a) (_, b). int b - int a)
                  (own_entries (diagnosesCount patients))))"

definition totalBeds :: nat where
  "totalBeds = 50"

definition occupiedBeds :: "patient list \<Rightarrow> nat" where
  "occupiedBeds patients = length (filter (\<lambda>p. status p \<noteq> ''Discharged'') patients)"

definition bedOccupancyRate_calc :: "patient list \<Rightarrow> real" where
  "bedOccupancyRate_calc patients = real (occupiedBeds patients) / real totalBeds"

definition deceasedDischarges :: "discharge list \<Rightarrow> nat" where
  "deceasedDischarges discharges =
     length (filter (\<lambda>d. discharge_condition d = ''Deceased'') discharges)"

definition mortalityRate_calc :: "discharge list \<Rightarrow> real" where
  "mortalityRate_calc discharges =
     real (deceasedDischarges discharges) / real (or_default (length discharges) 1)"

definition patientAdmissions :: "patient list \<Rightarrow> js_object" where
  "patientAdmissions patients = count_by mrn patients"

definition readmissions :: "patient list \<Rightarrow> nat" where
  "readmissions patients =
     length (filter (\<lambda>count. count > 1) (own_values (patientAdmissions patients)))"

definition readmissionRate_calc :: "patient list \<Rightarrow> real" where
  "readmissionRate_calc patients =
     real (readmissions patients) / real (or_default (length patients) 1)"

definition stayDurations :: "patient list \<Rightarrow> discharge list \<Rightarrow> real list" where
  "stayDurations patients discharges =
     map (\<lambda>d. case find (\<lambda>p. id_col p = patient_id d) patients of
                 None \<Rightarrow> 0
               | Some patient \<Rightarrow>
                   real_of_int (discharge_date d - admission_date patient)
                     / (1000 * 60 * 60 * 24))
       discharges"

definition averageStayDuration_calc :: "patient list \<Rightarrow> discharge list \<Rightarrow> real" where
  "averageStayDuration_calc patients discharges =
     (let durations = stayDurations patients discharges
      in if length durations \<noteq> 0
         then foldl (\<lambda>a b. a + b) 0 durations / real (length durations)
         else 0)"

definition compute_metrics ::
  "patient list \<Rightarrow> timed_row list \<Rightarrow> timed_row list \<Rightarrow> discharge list \<Rightarrow> report_metrics" where
  "compute_metrics patients medications labResults discharges =
     \<lparr>totalPatients = length patients,
      criticalCases = get_or_zero (statusDistribution patients) ''Critical'',
      medicationsGiven = length medications,
      labTests = length labResults,
      averageStayDuration = averageStayDuration_calc patients discharges,
      bedOccupancyRate = bedOccupancyRate_calc patients,
      readmissionRate = readmissionRate_calc patients,
      mortalityRate = mortalityRate_calc discharges\<rparr>"

definition compute_activities ::
  "(instant \<Rightarrow> string) \<Rightarrow> instant \<Rightarrow> patient list \<Rightarrow> timed_row list \<Rightarrow> timed_row list
     \<Rightarrow> discharge list \<Rightarrow> timed_row list \<Rightarrow> report_activities" where
  "compute_activities fmt today patients medications labResults discharges vitals =
     \<lparr>patientStatusDistribution =
        map (\<lambda>(name, value). (name, value)) (own_entries (statusDistribution patients)),
      dailyActivities =
        [(''Admissions'', admissionsToday fmt today patients),
         (''Discharges'', dischargesToday fmt today discharges),
         (''Lab Tests'', labTestsToday fmt today labResults),
         (''Medications'', medicationsToday fmt today medications)],
      topProcedures =
        [(''Vital Signs'', length vitals),
         (''Lab Tests'', length labResults),
         (''Medication Administration'', length medications),
         (''Patient Assessment'', length patients),
         (''Discharge Planning'', length discharges)],
      commonDiagnoses = sortedDiagnoses patients\<rparr>"

text \<open>
  A thrown value: an instance of \<^verbatim>\<open>Error\<close> with its message, or any other value (the
  error object of a query response need not be an \<^verbatim>\<open>Error\<close>), kept by a description.
\<close>

datatype thrown = ErrorInstance string | OtherValue string

fun instanceof_Error :: "thrown \<Rightarrow> bool" where
  "instanceof_Error (ErrorInstance msg) = True"
| "instanceof_Error (OtherValue v) = False"

text \<open>A query response \<^verbatim>\<open>{ data, error }\<close>; each of the two may be \<^verbatim>\<open>null\<close>.\<close>

record 'a response =
  data :: "'a list option"
  error :: "thrown option"

text \<open>
  What \<^verbatim>\<open>await Promise.all([...])\<close> yields: it throws the reason of a rejected promise,
  or gives the five responses (patients, medications, lab results, discharges, vitals).
\<close>

datatype fetched =
  Rejected thrown
| Resolved "patient response" "timed_row response" "timed_row response"
    "discharge response" "timed_row response"

text \<open>
  The state of the hook (\<^verbatim>\<open>metrics\<close>, \<^verbatim>\<open>activities\<close>, \<^verbatim>\<open>loading\<close>, \<^verbatim>\<open>error\<close>) together with
  the toasts shown and the values logged to the console.
\<close>

record hook_state =
  metrics_st :: report_metrics
  activities_st :: report_activities
  loading_st :: bool
  error_st :: "thrown option"
  toasts :: "string list"
  console :: "thrown list"

definition data_or_empty :: "'a response \<Rightarrow> 'a list" where
  \<comment> \<open>\<^verbatim>\<open>response.data || []\<close>\<close>
  "data_or_empty r = (case data r of None \<Rightarrow> [] | Some rows \<Rightarrow> rows)"

text \<open>The body of the \<^verbatim>\<open>try\<close> block: the thrown value, or the new metrics and activities.\<close>

definition try_block ::
  "(instant \<Rightarrow> string) \<Rightarrow> instant \<Rightarrow> fetched \<Rightarrow> thrown + report_metrics \<times> report_activities" where
  "try_block fmt today f =
     (case f of
        Rejected e \<Rightarrow> Inl e
      | Resolved patientsResponse medicationsResponse labResultsResponse dischargesResponse
          vitalsResponse \<Rightarrow>
          (case error patientsResponse of Some e \<Rightarrow> Inl e | None \<Rightarrow>
          (case error medicationsResponse of Some e \<Rightarrow> Inl e | None \<Rightarrow>
          (case error labResultsResponse of Some e \<Rightarrow> Inl e | None \<Rightarrow>
          (case error dischargesResponse of Some e \<Rightarrow> Inl e | None \<Rightarrow>
          (case error vitalsResponse of Some e \<Rightarrow> Inl e | None \<Rightarrow>
             (let patients = data_or_empty patientsResponse;
                  medications = data_or_empty medicationsResponse;
                  labResults = data_or_empty labResultsResponse;
                  discharges = data_or_empty dischargesResponse;
                  vitals = data_or_empty vitalsResponse
              in Inr (compute_metrics patients medications labResults discharges,
                      compute_activities fmt today patients medications labResults
                        discharges vitals))))))))"

definition fetchReportData ::
  "(instant \<Rightarrow> string) \<Rightarrow> instant \<Rightarrow> fetched \<Rightarrow> hook_state \<Rightarrow> hook_state" where
  "fetchReportData fmt today f s0 =
     (let s1 = s0\<lparr>loading_st := True, error_st := None\<rparr>;
          s2 = (case try_block fmt today f of
                  Inr (m, a) \<Rightarrow> s1\<lparr>metrics_st := m, activities_st := a\<rparr>
                | Inl err \<Rightarrow>
                    s1\<lparr>console := console s1 @ [err],
                       error_st := Some (if instanceof_Error err then err
                                         else ErrorInstance ''Failed to fetch report data''),
                       toasts := toasts s1 @ [''Failed to load report data'']\<rparr>)
      in s2\<lparr>loading_st := False\<rparr>)"

section \<open>The discharge forms\<close>

text \<open>
  The two \<^verbatim>\<open>DischargeForm\<close> components insert \<^verbatim>\<open>{ patient_id: patient.id, ...formData, ... }\<close>
  into \<^verbatim>\<open>discharges\<close>. The first offers the conditions Improved, Stable, Deteriorated and
  Deceased; the second offers Improved and died.
\<close>

datatype discharge_condition_1 = Improved_1 | Stable_1 | Deteriorated_1 | Deceased_1

datatype discharge_condition_2 = Improved_2 | died_2

fun option_value_1 :: "discharge_condition_1 \<Rightarrow> string" where
  "option_value_1 Improved_1 = ''Improved''"
| "option_value_1 Stable_1 = ''Stable''"
| "option_value_1 Deteriorated_1 = ''Deteriorated''"
| "option_value_1 Deceased_1 = ''Deceased''"

fun option_value_2 :: "discharge_condition_2 \<Rightarrow> string" where
  "option_value_2 Improved_2 = ''Improved''"
| "option_value_2 died_2 = ''died''"

definition DischargeForm_1_insert :: "patient \<Rightarrow> instant \<Rightarrow> discharge_condition_1 \<Rightarrow> discharge" where
  "DischargeForm_1_insert patient date cond =
     \<lparr>patient_id = id_col patient, discharge_date = date,
      discharge_condition = option_value_1 cond\<rparr>"

definition DischargeForm_2_insert :: "patient \<Rightarrow> instant \<Rightarrow> discharge_condition_2 \<Rightarrow> discharge" where
  "DischargeForm_2_insert patient date cond =
     \<lparr>patient_id = id_col patient, discharge_date = date,
      discharge_condition = option_value_2 cond\<rparr>"

section \<open>Comparison of two periods\<close>

text \<open>The interface \<^verbatim>\<open>ComparisonData\<close>: the previous metrics and six signed changes.\<close>

record changes_rec =
  totalPatients_change :: int
  criticalCases_change :: int
  averageStayDuration_change :: real
  bedOccupancyRate_change :: real
  readmissionRate_change :: real
  mortalityRate_change :: real

record comparison_data =
  previousPeriod :: report_metrics
  changes :: changes_rec

text \<open>
  Modelled from the spec: the Comparison Engine, the function from the current and the
  previous metrics to \<^verbatim>\<open>ComparisonData\<close>. The sources declare the interface only; the
  specification gives each change as the current field minus the previous one.
\<close>

definition compare_periods :: "report_metrics \<Rightarrow> report_metrics \<Rightarrow> comparison_data" where
  "compare_periods current previous =
     \<lparr>previousPeriod = previous,
      changes =
        \<lparr>totalPatients_change = int (totalPatients current) - int (totalPatients previous),
         criticalCases_change = int (criticalCases current) - int (criticalCases previous),
         averageStayDuration_change = averageStayDuration current - averageStayDuration previous,
         bedOccupancyRate_change = bedOccupancyRate current - bedOccupancyRate previous,
         readmissionRate_change = readmissionRate current - readmissionRate previous,
         mortalityRate_change = mortalityRate current - mortalityRate previous\<rparr>\<rparr>"

section \<open>The document renderer\<close>




section \<open>Notions used to state the properties\<close>

text \<open>The initial state of the hook, as its \<^verbatim>\<open>useState\<close> calls give it.\<close>

definition initial_metrics :: report_metrics where
  "initial_metrics =
     \<lparr>totalPatients = 0, criticalCases = 0, medicationsGiven = 0, labTests = 0,
      averageStayDuration = 0, bedOccupancyRate = 0, readmissionRate = 0, mortalityRate = 0\<rparr>"

definition initial_activities :: report_activities where
  "initial_activities =
     \<lparr>patientStatusDistribution = [], dailyActivities = [], topProcedures = [],
      commonDiagnoses = []\<rparr>"

definition initial_state :: hook_state where
  "initial_state =
     \<lparr>metrics_st = initial_metrics, activities_st = initial_activities, loading_st = True,
      error_st = None, toasts = [], console = []\<rparr>"

text \<open>
  The failures among the fetches: the reason of the rejection, or the errors of the
  responses in the order patients, medications, lab results, discharges, vitals.
\<close>

definition error_list :: "'a response \<Rightarrow> thrown list" where
  "error_list r = (case error r of None \<Rightarrow> [] | Some e \<Rightarrow> [e])"

fun fetch_errors :: "fetched \<Rightarrow> thrown list" where
  "fetch_errors (Rejected e) = [e]"
| "fetch_errors (Resolved pr mr lr dr vr) =
     error_list pr @ error_list mr @ error_list lr @ error_list dr @ error_list vr"

text \<open>The number of rows with a given key.\<close>

definition occ :: "('a \<Rightarrow> string) \<Rightarrow> 'a list \<Rightarrow> string \<Rightarrow> nat" where
  "occ key rows k = length (filter (\<lambda>r. key r = k) rows)"


text \<open>A stay in fractional days: discharge instant minus admission instant.\<close>

definition stay_days :: "patient \<Rightarrow> discharge \<Rightarrow> real" where
  "stay_days p d = (real_of_int (discharge_date d) - real_of_int (admission_date p)) / 86400000"



section \<open>Counting rows by key\<close>

lemma or_default_zero: "or_default n 0 = n"
  by (simp add: or_default_def)

lemma map_of_set_prop: "map_of (set_prop k v obj) = (map_of obj)(k \<mapsto> v)"
  by (induction obj) (auto simp: fun_eq_iff)

lemma keys_set_prop:
  "map fst (set_prop k v obj) = (if k \<in> fst ` set obj then map fst obj else map fst obj @ [k])"
  by (induction obj) (force simp: image_iff)+

lemma sum_set_prop_bump:
  "sum_list (map snd (set_prop k (Suc (get_or_zero obj k)) obj)) = Suc (sum_list (map snd obj))"
  by (induction obj) (auto simp: get_or_zero_def or_default_zero)

lemma count_by_snoc:
  "count_by key (rows @ [r]) =
     set_prop (key r) (get_or_zero (count_by key rows) (key r) + 1) (count_by key rows)"
  by (simp add: count_by_def)

lemma count_by_Nil: "count_by key [] = []"
  by (simp add: count_by_def)


lemma distinct_count_by: "distinct (map fst (count_by key rows))"
proof (induction rows rule: rev_induct)
  case Nil
  show ?case by (simp add: count_by_Nil)
next
  case (snoc r rows)
  then show ?case unfolding count_by_snoc keys_set_prop by auto
qed

lemma occ_snoc: "occ key (rows @ [r]) k = occ key rows k + (if key r = k then 1 else 0)"
  by (simp add: occ_def)

lemma occ_zero: "k \<notin> key ` set rows \<Longrightarrow> occ key rows k = 0"
  by (auto simp: occ_def filter_empty_conv)

lemma map_of_count_by:
  "map_of (count_by key rows) k = (if k \<in> key ` set rows then Some (occ key rows k) else None)"
proof (induction rows arbitrary: k rule: rev_induct)
  case Nil
  show ?case by (simp add: count_by_Nil)
next
  case (snoc r rows)
  have step: "map_of (count_by key (rows @ [r])) k =
      (if k = key r then Some (Suc (get_or_zero (count_by key rows) (key r)))
       else map_of (count_by key rows) k)"
    by (simp add: count_by_snoc map_of_set_prop)
  have g: "get_or_zero (count_by key rows) (key r) = occ key rows (key r)"
    by (simp add: get_or_zero_def snoc.IH or_default_zero occ_zero)
  show ?case
    unfolding step g by (simp add: snoc.IH occ_snoc)
qed

lemma sum_count_by: "sum_list (map snd (count_by key rows)) = length rows"
  by (induction rows rule: rev_induct) (simp_all add: count_by_Nil count_by_snoc sum_set_prop_bump)

lemma mset_own_entries: "mset (own_entries obj) = mset obj"
  unfolding own_entries_def by (simp add: union_commute)

lemma in_count_by_iff:
  "(k, c) \<in> set (count_by key rows) \<longleftrightarrow> k \<in> key ` set rows \<and> c = occ key rows k"
proof -
  have "(k, c) \<in> set (count_by key rows) \<longleftrightarrow> map_of (count_by key rows) k = Some c"
    by (simp add: map_of_eq_Some_iff [OF distinct_count_by])
  then show ?thesis by (auto simp: map_of_count_by)
qed

section \<open>Mortality rate\<close>

lemma or_default_one: "or_default n 1 = max n 1"
  by (simp add: or_default_def max_def)

text \<open>
  C2. The mortality rate is the number of discharges whose condition is the string
  Deceased over max(number of discharges, 1); the denominator is never zero, the rate of
  no discharges is 0, and two discharges of which exactly one is Deceased give 0.5.
\<close>

theorem C2_mortalityRate:
  "mortalityRate_calc ds =
     real (card {i. i < length ds \<and> discharge_condition (ds ! i) = ''Deceased''})
       / real (max (length ds) 1)
   \<and> real (max (length ds) 1) \<noteq> 0
   \<and> mortalityRate_calc [] = 0
   \<and> (length ds = 2 \<and> card {i. i < length ds \<and> discharge_condition (ds ! i) = ''Deceased''} = 1
        \<longrightarrow> mortalityRate_calc ds = 0.5)"
proof -
  define dead where "dead = card {i. i < length ds \<and> discharge_condition (ds ! i) = ''Deceased''}"
  have cnt: "deceasedDischarges ds = dead"
    unfolding deceasedDischarges_def dead_def by (rule length_filter_conv_card)
  have eq: "mortalityRate_calc ds = real dead / real (max (length ds) 1)"
    by (simp only: mortalityRate_calc_def cnt or_default_one)
  have nil: "mortalityRate_calc [] = 0"
    by (simp add: mortalityRate_calc_def deceasedDischarges_def)
  have half: "length ds = 2 \<and> dead = 1 \<longrightarrow> mortalityRate_calc ds = 0.5"
    by (simp add: eq)
  show ?thesis using eq nil half unfolding dead_def by simp
qed

theorem C2_mortalityRate_witness:
  "mortalityRate_calc
     [\<lparr>patient_id = ''p1'', discharge_date = 0, discharge_condition = ''Deceased''\<rparr>,
      \<lparr>patient_id = ''p2'', discharge_date = 0, discharge_condition = ''Improved''\<rparr>] = 0.5"
proof -
  let ?ds = "[\<lparr>patient_id = ''p1'', discharge_date = 0, discharge_condition = ''Deceased''\<rparr>,
      \<lparr>patient_id = ''p2'', discharge_date = 0, discharge_condition = ''Improved''\<rparr>]"
  have "{i. i < length ?ds \<and> discharge_condition (?ds ! i) = ''Deceased''} = {0}"
    by (auto simp: less_Suc_eq numeral_2_eq_2)
  then have "length ?ds = 2 \<and> card {i. i < length ?ds \<and> discharge_condition (?ds ! i) = ''Deceased''} = 1"
    by simp
  with C2_mortalityRate [of ?ds] show ?thesis by blast
qed

lemma sum_own_entries: "sum_list (map snd (own_entries obj)) = sum_list (map snd obj)"
proof -
  have "sum_mset (image_mset snd (mset (own_entries obj))) = sum_mset (image_mset snd (mset obj))"
    by (simp only: mset_own_entries)
  then show ?thesis by (simp only: mset_map [symmetric] sum_mset_sum_list)
qed

lemma set_own_entries: "set (own_entries obj) = set obj"
  using mset_own_entries [of obj] by (metis set_mset_mset)


lemma distinct_keys_own_entries:
  "distinct (map fst (own_entries obj)) = distinct (map fst obj)"
proof -
  have "mset (map fst (own_entries obj)) = mset (map fst obj)"
    by (simp only: mset_map mset_own_entries)
  then show ?thesis by (rule mset_eq_imp_distinct_iff)
qed

lemma map_pair_id: "map (\<lambda>(name, value). (name, value)) xs = xs"
  by (induction xs) auto

lemma get_or_zero_count_by: "get_or_zero (count_by key rows) k = occ key rows k"
  by (simp add: get_or_zero_def map_of_count_by or_default_zero occ_zero)

lemma occ_le_length: "occ key rows k \<le> length rows"
  by (simp add: occ_def)

section \<open>Status distribution\<close>

text \<open>
  C10. The values of the patient status distribution add up to the total number of
  patients: the names are distinct, the bucket of each admission's status holds exactly
  the number of admissions with that status, and the critical cases, the count of the
  Critical bucket or 0 without one, never exceed the total.
\<close>

theorem C10_status_distribution_total:
  "sum_list (map snd (patientStatusDistribution (compute_activities fmt today ps meds labs ds vs)))
     = totalPatients (compute_metrics ps meds labs ds)
   \<and> distinct (map fst (patientStatusDistribution (compute_activities fmt today ps meds labs ds vs)))
   \<and> (\<forall>p \<in> set ps. \<forall>v.
         (status p, v) \<in> set (patientStatusDistribution (compute_activities fmt today ps meds labs ds vs))
           \<longleftrightarrow> v = occ status ps (status p))
   \<and> criticalCases (compute_metrics ps meds labs ds) = occ status ps ''Critical''
   \<and> criticalCases (compute_metrics ps meds labs ds) \<le> totalPatients (compute_metrics ps meds labs ds)"
proof -
  have dist: "patientStatusDistribution (compute_activities fmt today ps meds labs ds vs)
      = own_entries (count_by status ps)"
    by (simp add: compute_activities_def statusDistribution_def map_pair_id)
  have total: "totalPatients (compute_metrics ps meds labs ds) = length ps"
    by (simp add: compute_metrics_def)
  have crit: "criticalCases (compute_metrics ps meds labs ds) = occ status ps ''Critical''"
    by (simp add: compute_metrics_def statusDistribution_def get_or_zero_count_by)
  have a: "sum_list (map snd (own_entries (count_by status ps))) = length ps"
    by (simp only: sum_own_entries sum_count_by)
  have b: "distinct (map fst (own_entries (count_by status ps)))"
    by (simp only: distinct_keys_own_entries distinct_count_by)
  have c: "\<forall>p \<in> set ps. \<forall>v. (status p, v) \<in> set (own_entries (count_by status ps))
           \<longleftrightarrow> v = occ status ps (status p)"
    by (simp add: set_own_entries in_count_by_iff)
  show ?thesis
    unfolding dist total crit using a b c occ_le_length [of status ps "''Critical''"] by blast
qed


theorem C10_status_distribution_total_witness:
  "sum_list (map snd (patientStatusDistribution (compute_activities (\<lambda>t. ''2024-01-01'') 0
       [\<lparr>id_col = ''a'', mrn = ''1'', status = ''Critical'', diagnosis = ''Sepsis'', admission_date = 0\<rparr>,
        \<lparr>id_col = ''b'', mrn = ''2'', status = ''Stable'', diagnosis = ''Sepsis'', admission_date = 0\<rparr>,
        \<lparr>id_col = ''c'', mrn = ''3'', status = ''Critical'', diagnosis = ''Stroke'', admission_date = 0\<rparr>]
       [] [] [] [])))
     = totalPatients (compute_metrics
       [\<lparr>id_col = ''a'', mrn = ''1'', status = ''Critical'', diagnosis = ''Sepsis'', admission_date = 0\<rparr>,
        \<lparr>id_col = ''b'', mrn = ''2'', status = ''Stable'', diagnosis = ''Sepsis'', admission_date = 0\<rparr>,
        \<lparr>id_col = ''c'', mrn = ''3'', status = ''Critical'', diagnosis = ''Stroke'', admission_date = 0\<rparr>]
       [] [] [])
   \<and> (''Critical'', 2) \<in> set (patientStatusDistribution (compute_activities (\<lambda>t. ''2024-01-01'') 0
       [\<lparr>id_col = ''a'', mrn = ''1'', status = ''Critical'', diagnosis = ''Sepsis'', admission_date = 0\<rparr>,
        \<lparr>id_col = ''b'', mrn = ''2'', status = ''Stable'', diagnosis = ''Sepsis'', admission_date = 0\<rparr>,
        \<lparr>id_col = ''c'', mrn = ''3'', status = ''Critical'', diagnosis = ''Stroke'', admission_date = 0\<rparr>]
       [] [] [] []))
   \<and> criticalCases (compute_metrics
       [\<lparr>id_col = ''a'', mrn = ''1'', status = ''Critical'', diagnosis = ''Sepsis'', admission_date = 0\<rparr>,
        \<lparr>id_col = ''b'', mrn = ''2'', status = ''Stable'', diagnosis = ''Sepsis'', admission_date = 0\<rparr>,
        \<lparr>id_col = ''c'', mrn = ''3'', status = ''Critical'', diagnosis = ''Stroke'', admission_date = 0\<rparr>]
       [] [] []) = 2"
  using C10_status_distribution_total [of "\<lambda>t. ''2024-01-01''" 0
       "[\<lparr>id_col = ''a'', mrn = ''1'', status = ''Critical'', diagnosis = ''Sepsis'', admission_date = 0\<rparr>,
        \<lparr>id_col = ''b'', mrn = ''2'', status = ''Stable'', diagnosis = ''Sepsis'', admission_date = 0\<rparr>,
        \<lparr>id_col = ''c'', mrn = ''3'', status = ''Critical'', diagnosis = ''Stroke'', admission_date = 0\<rparr>]"
       "[]" "[]" "[]" "[]"]
  by (simp add: occ_def)

section \<open>Readmission rate\<close>






section \<open>Average stay duration\<close>

lemma foldl_add_sum_list: "foldl (\<lambda>a b. a + b) (a :: real) xs = a + sum_list xs"
  by (induction xs arbitrary: a) simp_all

lemma stayDurations_nth:
  "i < length ds \<Longrightarrow>
   stayDurations ps ds ! i =
     (case find (\<lambda>p. id_col p = patient_id (ds ! i)) ps of
        None \<Rightarrow> 0 | Some p \<Rightarrow> stay_days p (ds ! i))"
  by (simp add: stayDurations_def stay_days_def split: option.splits)

text \<open>
  C1. The average stay duration is 0 without discharges, and otherwise the sum of the
  contributions of all discharges over the number of discharges, where a discharge
  without an admission of the same id contributes 0 and a discharge with one contributes
  its instant minus the admission instant of such an admission, in days.
\<close>

theorem C1_averageStayDuration:
  "averageStayDuration_calc ps [] = 0
   \<and> length (stayDurations ps ds) = length ds
   \<and> averageStayDuration_calc ps ds =
       (if ds = [] then 0 else sum_list (stayDurations ps ds) / real (length ds))
   \<and> (\<forall>i < length ds.
         (\<not> (\<exists>p \<in> set ps. id_col p = patient_id (ds ! i)) \<longrightarrow> stayDurations ps ds ! i = 0)
       \<and> ((\<exists>p \<in> set ps. id_col p = patient_id (ds ! i)) \<longrightarrow>
            (\<exists>p \<in> set ps. id_col p = patient_id (ds ! i)
               \<and> stayDurations ps ds ! i = stay_days p (ds ! i))))"
proof -
  have nil: "averageStayDuration_calc ps [] = 0"
    by (simp add: averageStayDuration_calc_def stayDurations_def)
  have len: "length (stayDurations ps ds) = length ds"
    by (simp add: stayDurations_def)
  have mean: "averageStayDuration_calc ps ds =
       (if ds = [] then 0 else sum_list (stayDurations ps ds) / real (length ds))"
  proof (cases "ds = []")
    case True
    then show ?thesis using nil by simp
  next
    case False
    then show ?thesis
      by (simp add: averageStayDuration_calc_def Let_def len foldl_add_sum_list)
  qed
  have each: "\<forall>i < length ds.
         (\<not> (\<exists>p \<in> set ps. id_col p = patient_id (ds ! i)) \<longrightarrow> stayDurations ps ds ! i = 0)
       \<and> ((\<exists>p \<in> set ps. id_col p = patient_id (ds ! i)) \<longrightarrow>
            (\<exists>p \<in> set ps. id_col p = patient_id (ds ! i)
               \<and> stayDurations ps ds ! i = stay_days p (ds ! i)))"
  proof (intro allI impI conjI)
    fix i assume i: "i < length ds" and none: "\<not> (\<exists>p \<in> set ps. id_col p = patient_id (ds ! i))"
    from none have "find (\<lambda>p. id_col p = patient_id (ds ! i)) ps = None"
      by (simp add: find_None_iff)
    with i show "stayDurations ps ds ! i = 0" by (simp add: stayDurations_nth)
  next
    fix i assume i: "i < length ds" and some: "\<exists>p \<in> set ps. id_col p = patient_id (ds ! i)"
    then obtain p where p: "find (\<lambda>p. id_col p = patient_id (ds ! i)) ps = Some p"
      by (cases "find (\<lambda>p. id_col p = patient_id (ds ! i)) ps") (auto simp: find_None_iff)
    then have "p \<in> set ps" "id_col p = patient_id (ds ! i)"
      by (auto simp: find_Some_iff)
    moreover from i p have "stayDurations ps ds ! i = stay_days p (ds ! i)"
      by (simp add: stayDurations_nth)
    ultimately show "\<exists>p \<in> set ps. id_col p = patient_id (ds ! i)
               \<and> stayDurations ps ds ! i = stay_days p (ds ! i)" by blast
  qed
  show ?thesis using nil len mean each by blast
qed

theorem C1_averageStayDuration_witness:
  "averageStayDuration_calc
     [\<lparr>id_col = ''a'', mrn = ''M1'', status = ''Discharged'', diagnosis = ''Sepsis'', admission_date = 0\<rparr>]
     [\<lparr>patient_id = ''a'', discharge_date = 259200000, discharge_condition = ''Improved''\<rparr>,
      \<lparr>patient_id = ''z'', discharge_date = 259200000, discharge_condition = ''Improved''\<rparr>]
   = 3 / 2"
  using C1_averageStayDuration
    [of "[\<lparr>id_col = ''a'', mrn = ''M1'', status = ''Discharged'', diagnosis = ''Sepsis'', admission_date = 0\<rparr>]"
        "[\<lparr>patient_id = ''a'', discharge_date = 259200000, discharge_condition = ''Improved''\<rparr>,
          \<lparr>patient_id = ''z'', discharge_date = 259200000, discharge_condition = ''Improved''\<rparr>]"]
  by (simp add: stayDurations_def)

section \<open>Daily activities\<close>

text \<open>
  C7. The daily activities are four entries, named Admissions, Discharges, Lab Tests and
  Medications in this order, and each value is the number of rows of its collection whose
  timestamp falls on the calendar date of the moment of computation; the requested window
  is no input of the computation.
\<close>

theorem C7_dailyActivities:
  "length (dailyActivities (compute_activities fmt today ps meds labs ds vs)) = 4
   \<and> map fst (dailyActivities (compute_activities fmt today ps meds labs ds vs))
       = [''Admissions'', ''Discharges'', ''Lab Tests'', ''Medications'']
   \<and> map snd (dailyActivities (compute_activities fmt today ps meds labs ds vs))
       = [card {i. i < length ps \<and> fmt (admission_date (ps ! i)) = fmt today},
          card {i. i < length ds \<and> fmt (discharge_date (ds ! i)) = fmt today},
          card {i. i < length labs \<and> fmt (created_at (labs ! i)) = fmt today},
          card {i. i < length meds \<and> fmt (created_at (meds ! i)) = fmt today}]"
  by (simp add: compute_activities_def admissionsToday_def dischargesToday_def
      labTestsToday_def medicationsToday_def length_filter_conv_card)

section \<open>Common diagnoses\<close>












section \<open>Failure of a fetch\<close>

lemma try_block_failure:
  "fetch_errors f \<noteq> [] \<Longrightarrow> try_block fmt today f = Inl (hd (fetch_errors f))"
  by (cases f) (auto simp: try_block_def error_list_def split: option.splits)

lemma try_block_success:
  "fetch_errors f = [] \<Longrightarrow> \<exists>m a. try_block fmt today f = Inr (m, a)"
  by (cases f) (auto simp: try_block_def error_list_def Let_def split: option.splits)

text \<open>
  C5, as amended. When a fetch fails, the metrics and the activities of the hook stay as
  they were, loading ends, one toast is shown and the first failure is logged; the error
  of the hook is that failure itself when it is an instance of Error, and otherwise a new
  Error with the fixed message, which does not hold the failure.
\<close>

theorem C5_fetch_failure:
  "fetch_errors f \<noteq> [] \<Longrightarrow>
   metrics_st (fetchReportData fmt today f s) = metrics_st s
   \<and> activities_st (fetchReportData fmt today f s) = activities_st s
   \<and> loading_st (fetchReportData fmt today f s) = False
   \<and> error_st (fetchReportData fmt today f s) =
       Some (if instanceof_Error (hd (fetch_errors f)) then hd (fetch_errors f)
             else ErrorInstance ''Failed to fetch report data'')
   \<and> console (fetchReportData fmt today f s) = console s @ [hd (fetch_errors f)]
   \<and> toasts (fetchReportData fmt today f s) = toasts s @ [''Failed to load report data'']"
  by (simp add: fetchReportData_def try_block_failure)

theorem C5_fetch_failure_witness:
  "error_st (fetchReportData (nat_to_string \<circ> nat) 0
      (Resolved \<lparr>data = None, error = None\<rparr>
                \<lparr>data = None, error = Some (ErrorInstance ''timeout'')\<rparr>
                \<lparr>data = None, error = None\<rparr>
                \<lparr>data = None, error = Some (OtherValue ''denied'')\<rparr>
                \<lparr>data = None, error = None\<rparr>)
      initial_state) = Some (ErrorInstance ''timeout'')
   \<and> metrics_st (fetchReportData (nat_to_string \<circ> nat) 0
      (Resolved \<lparr>data = None, error = None\<rparr>
                \<lparr>data = None, error = Some (ErrorInstance ''timeout'')\<rparr>
                \<lparr>data = None, error = None\<rparr>
                \<lparr>data = None, error = Some (OtherValue ''denied'')\<rparr>
                \<lparr>data = None, error = None\<rparr>)
      initial_state) = initial_metrics"
  using C5_fetch_failure [of
      "Resolved \<lparr>data = None, error = None\<rparr>
                \<lparr>data = None, error = Some (ErrorInstance ''timeout'')\<rparr>
                \<lparr>data = None, error = None\<rparr>
                \<lparr>data = None, error = Some (OtherValue ''denied'')\<rparr>
                \<lparr>data = None, error = None\<rparr>"
      "nat_to_string \<circ> nat" 0 initial_state]
  by (simp add: error_list_def initial_state_def)

theorem C5_cause_dropped_counterexample:
  "fetch_errors
      (Resolved \<lparr>data = None, error = Some (OtherValue ''permission denied'')\<rparr>
                \<lparr>data = Some [], error = None\<rparr>
                \<lparr>data = Some [], error = None\<rparr>
                \<lparr>data = Some [], error = None\<rparr>
                \<lparr>data = Some [], error = None\<rparr>)
     = [OtherValue ''permission denied'']
   \<and> error_st (fetchReportData (nat_to_string \<circ> nat) 0
      (Resolved \<lparr>data = None, error = Some (OtherValue ''permission denied'')\<rparr>
                \<lparr>data = Some [], error = None\<rparr>
                \<lparr>data = Some [], error = None\<rparr>
                \<lparr>data = Some [], error = None\<rparr>
                \<lparr>data = Some [], error = None\<rparr>)
      initial_state) = Some (ErrorInstance ''Failed to fetch report data'')
   \<and> ErrorInstance ''Failed to fetch report data'' \<noteq> OtherValue ''permission denied''"
  by (simp add: error_list_def fetchReportData_def try_block_def initial_state_def)

section \<open>The discharge forms and the mortality rate\<close>

text \<open>
  C3. A discharge written by the second form with its terminal condition carries the
  string died, which the mortality rate does not count: alone, it gives no deceased
  discharge and a rate of 0, while the terminal condition of the first form is counted.
\<close>

theorem C3_died_not_counted:
  "deceasedDischarges [DischargeForm_2_insert p t died_2] = 0
   \<and> mortalityRate_calc [DischargeForm_2_insert p t died_2] = 0
   \<and> deceasedDischarges [DischargeForm_1_insert p t Deceased_1] = 1
   \<and> mortalityRate_calc [DischargeForm_1_insert p t Deceased_1] = 1"
  by (simp add: deceasedDischarges_def mortalityRate_calc_def DischargeForm_2_insert_def
      DischargeForm_1_insert_def or_default_def)

section \<open>Changes between two periods\<close>

text \<open>
  C8. The changes of a comparison are the current minus the previous value of the six
  fields total patients, critical cases, average stay duration, bed occupancy rate,
  readmission rate and mortality rate, negative where the value fell; medications given
  and lab tests have no change and do not influence any.
\<close>

theorem C8_changes:
  "totalPatients_change (changes (compare_periods cur prev))
     = int (totalPatients cur) - int (totalPatients prev)
   \<and> criticalCases_change (changes (compare_periods cur prev))
     = int (criticalCases cur) - int (criticalCases prev)
   \<and> averageStayDuration_change (changes (compare_periods cur prev))
     = averageStayDuration cur - averageStayDuration prev
   \<and> bedOccupancyRate_change (changes (compare_periods cur prev))
     = bedOccupancyRate cur - bedOccupancyRate prev
   \<and> readmissionRate_change (changes (compare_periods cur prev))
     = readmissionRate cur - readmissionRate prev
   \<and> mortalityRate_change (changes (compare_periods cur prev))
     = mortalityRate cur - mortalityRate prev
   \<and> previousPeriod (compare_periods cur prev) = prev
   \<and> changes (compare_periods (cur\<lparr>medicationsGiven := m1, labTests := l1\<rparr>)
                                (prev\<lparr>medicationsGiven := m2, labTests := l2\<rparr>))
     = changes (compare_periods cur prev)"
  by (simp add: compare_periods_def)

section \<open>Decimal strings\<close>















section \<open>The Key Metrics table\<close>



end
